theory Spec2Isabelle
  imports Complex_Main "HOL-Library.Sublist"
begin

section \<open>Python strings\<close>

text \<open>
  Python \<open>str\<close> values are modelled as \<open>string\<close> (lists of 8-bit characters). The
  case mappings and the whitespace test below are the ASCII ones; text outside ASCII is
  carried unchanged.
\<close>

definition ascii_uppercase :: string where
  "ascii_uppercase = ''ABCDEFGHIJKLMNOPQRSTUVWXYZ''"

definition ascii_lowercase :: string where
  "ascii_lowercase = ''abcdefghijklmnopqrstuvwxyz''"

definition lower_char :: "char \<Rightarrow> char" where
  "lower_char c = (case map_of (zip ascii_uppercase ascii_lowercase) c of None \<Rightarrow> c | Some d \<Rightarrow> d)"

definition upper_char :: "char \<Rightarrow> char" where
  "upper_char c = (case map_of (zip ascii_lowercase ascii_uppercase) c of None \<Rightarrow> c | Some d \<Rightarrow> d)"

definition lower :: "string \<Rightarrow> string" where
  "lower s = map lower_char s"

definition upper :: "string \<Rightarrow> string" where
  "upper s = map upper_char s"

text \<open>The ASCII characters for which \<open>str.isspace\<close> holds: codes 9 to 13 and 28 to 32.\<close>

definition whitespace :: string where
  "whitespace = [CHR 0x09, CHR 0x0A, CHR 0x0B, CHR 0x0C, CHR 0x0D,
                 CHR 0x1C, CHR 0x1D, CHR 0x1E, CHR 0x1F, CHR '' '']"

definition is_space :: "char \<Rightarrow> bool" where
  "is_space c = (c \<in> set whitespace)"

definition strip :: "string \<Rightarrow> string" where
  "strip s = rev (dropWhile is_space (rev (dropWhile is_space s)))"

text \<open>\<open>str_in n h\<close> is Python's \<open>n in h\<close> on strings: \<open>n\<close> occurs in \<open>h\<close> as a substring.\<close>

fun str_in :: "string \<Rightarrow> string \<Rightarrow> bool" where
  "str_in n [] = (n = [])"
| "str_in n (h # hs) = (prefix n (h # hs) \<or> str_in n hs)"

definition endswith :: "string \<Rightarrow> string \<Rightarrow> bool" where
  "endswith s suf = prefix (rev suf) (rev s)"

text \<open>\<open>split_on sep s\<close> is \<open>s.split(sep)\<close> for a one-character separator.\<close>

fun split_on :: "char \<Rightarrow> string \<Rightarrow> string list" where
  "split_on sep [] = [[]]"
| "split_on sep (c # cs) =
     (if c = sep then [] # split_on sep cs
      else (case split_on sep cs of [] \<Rightarrow> [[c]] | x # xs \<Rightarrow> (c # x) # xs))"

text \<open>Truthiness of a value of type \<open>str | None\<close>: neither \<open>None\<close> nor the empty string.\<close>

fun truthy :: "string option \<Rightarrow> bool" where
  "truthy None = False"
| "truthy (Some s) = (s \<noteq> [])"

section \<open>Catalog models (api/models.py)\<close>

record Technology =
  Technology_id :: int
  Technology_name :: string
  Technology_identifier :: string

record City =
  City_id :: int
  City_name :: string
  City_latitude :: real
  City_longitude :: real
  City_dns_name :: "string option"
  City_hub_score :: "int option"

record Country =
  Country_id :: int
  Country_name :: string
  Country_code :: string
  Country_city :: "City option"

record ServerLocation =
  ServerLocation_id :: int
  ServerLocation_country :: Country
  ServerLocation_latitude :: real
  ServerLocation_longitude :: real

record ServerIP =
  ServerIP_id :: int
  ServerIP_ip :: string
  ServerIP_version :: int

record Server =
  Server_id :: int
  Server_name :: string
  Server_station :: string
  Server_hostname :: string
  Server_load :: int
  Server_status :: string
  Server_locations :: "ServerLocation list"
  Server_technologies :: "Technology list"
  Server_ips :: "ServerIP list"

definition Server_country :: "Server \<Rightarrow> Country option" where
  "Server_country self =
     (case Server_locations self of [] \<Rightarrow> None | l # _ \<Rightarrow> Some (ServerLocation_country l))"

definition Server_city :: "Server \<Rightarrow> City option" where
  "Server_city self =
     (case Server_locations self of [] \<Rightarrow> None | l # _ \<Rightarrow> Country_city (ServerLocation_country l))"

record RecommendedServer =
  Rec_id :: int
  Rec_name :: string
  Rec_station :: string
  Rec_hostname :: string
  Rec_load :: int
  Rec_status :: string
  Rec_locations :: "ServerLocation list"
  Rec_technologies :: "Technology list"

definition Rec_country :: "RecommendedServer \<Rightarrow> Country option" where
  "Rec_country self =
     (case Rec_locations self of [] \<Rightarrow> None | l # _ \<Rightarrow> Some (ServerLocation_country l))"

definition Rec_city :: "RecommendedServer \<Rightarrow> City option" where
  "Rec_city self =
     (case Rec_locations self of [] \<Rightarrow> None | l # _ \<Rightarrow> Country_city (ServerLocation_country l))"

section \<open>The world: effects, exceptions and the environment\<close>

text \<open>
  Paths are \<open>pathlib\<close> paths, kept as their list of parts. A file system maps a path to
  a directory or to a regular file with its content and permission bits.
\<close>

type_synonym path = "string list"

datatype node = Dir | File string nat

datatype pval = PInt int | PStr string

text \<open>
  Every effect the program issues is appended to the trace of the world: HTTP requests
  (URL and query parameters), subprocesses (argument vector), sleeps (seconds) and the
  file-system calls.
\<close>

datatype event =
    HttpGet string "(string \<times> pval) list"
  | Subprocess "string list"
  | Sleep nat
  | Rmtree path
  | Mkdir path
  | MkdirParents path
  | Copy2 path path
  | WriteText path string
  | WriteBytes path string
  | Chmod path nat
  | Touch path

datatype exn =
    TunnelblickError string
  | TimeoutExpired
  | FileNotFoundError
  | FileExistsError
  | NotADirectoryError
  | IsADirectoryError
  | SameFileError
  | OSError string
  | HTTPError string
  | ValidationError string
  | AttributeError

text \<open>The clock counts milliseconds; \<open>time.time()\<close> reads it.\<close>

record world =
  clock :: nat
  trace :: "event list"
  files :: "path \<rightharpoonup> node"

record completed =
  returncode :: int
  stdout :: string
  stderr :: string

text \<open>
  The environment answers the program's requests. Every answer may depend on the whole
  current world (time, history, files). An HTTP endpoint answers with the parsed models,
  or with the exception that the request, \<open>raise_for_status\<close> or the model validation
  raised. \<open>latency\<close> is the time an effect takes; \<open>fs_fault\<close> lets any file-system call
  fail for reasons outside the model (permissions, quota); \<open>file_create_mode\<close> is the
  mode a newly created file gets (\<open>0o666\<close> masked by the umask); \<open>cwd\<close> is \<open>Path.cwd()\<close>.
\<close>

record env =
  latency :: "world \<Rightarrow> event \<Rightarrow> nat"
  subprocess_run :: "world \<Rightarrow> string list \<Rightarrow> exn + completed"
  countries_endpoint :: "world \<Rightarrow> exn + Country list"
  recommendations_endpoint :: "world \<Rightarrow> (string \<times> pval) list \<Rightarrow> exn + RecommendedServer list"
  servers_endpoint :: "world \<Rightarrow> (string \<times> pval) list \<Rightarrow> exn + Server list"
  hostname_endpoint :: "world \<Rightarrow> (string \<times> pval) list \<Rightarrow> exn + (exn + Server) list"
  download_endpoint :: "world \<Rightarrow> string \<Rightarrow> exn + string"
  ipify_endpoint :: "world \<Rightarrow> exn + int \<times> string"
  ipinfo_endpoint :: "world \<Rightarrow> string \<Rightarrow> exn + int \<times> (exn + (string \<rightharpoonup> string))"
  fs_fault :: "world \<Rightarrow> event \<Rightarrow> exn option"
  file_create_mode :: nat
  cwd :: path

type_synonym 'a io = "world \<Rightarrow> (exn + 'a) \<times> world"

definition io_return :: "'a \<Rightarrow> 'a io" where
  "io_return x w = (Inr x, w)"

definition io_raise :: "exn \<Rightarrow> 'a io" where
  "io_raise e w = (Inl e, w)"

definition io_bind :: "'a io \<Rightarrow> ('a \<Rightarrow> 'b io) \<Rightarrow> 'b io" where
  "io_bind m f w = (case m w of (Inl e, w1) \<Rightarrow> (Inl e, w1) | (Inr x, w1) \<Rightarrow> f x w1)"

definition emit :: "env \<Rightarrow> event \<Rightarrow> world \<Rightarrow> world" where
  "emit env ev w = w\<lparr>clock := clock w + latency env w ev, trace := trace w @ [ev]\<rparr>"

text \<open>\<open>try: m except Exception as e: h e\<close>.\<close>

definition io_catch :: "'a io \<Rightarrow> (exn \<Rightarrow> 'a io) \<Rightarrow> 'a io" where
  "io_catch m h w = (case m w of (Inl e, w1) \<Rightarrow> h e w1 | (Inr x, w1) \<Rightarrow> (Inr x, w1))"

text \<open>\<open>time.sleep(secs)\<close> and \<open>asyncio.sleep(secs)\<close>: at least \<open>secs\<close> seconds pass.\<close>

definition sleep :: "env \<Rightarrow> nat \<Rightarrow> world \<Rightarrow> world" where
  "sleep env secs w =
     w\<lparr>clock := clock w + 1000 * secs + latency env w (Sleep secs), trace := trace w @ [Sleep secs]\<rparr>"

text \<open>An effect whose answer comes from the environment: log it, then return or raise.\<close>

definition request :: "env \<Rightarrow> event \<Rightarrow> (exn + 'a) \<Rightarrow> 'a io" where
  "request env ev answer w = (answer, emit env ev w)"

section \<open>Catalog client (api/client.py)\<close>

definition BASE_URL :: string where
  "BASE_URL = ''https://api.nordvpn.com''"

definition get_countries :: "env \<Rightarrow> Country list io" where
  "get_countries env w =
     request env (HttpGet (BASE_URL @ ''/v1/servers/countries'') []) (countries_endpoint env w) w"

fun first_country_with_code :: "string \<Rightarrow> Country list \<Rightarrow> Country option" where
  "first_country_with_code code [] = None"
| "first_country_with_code code (country # countries) =
     (if upper (Country_code country) = code then Some country
      else first_country_with_code code countries)"

definition get_country_by_code :: "env \<Rightarrow> string \<Rightarrow> Country option io" where
  "get_country_by_code env code =
     io_bind (get_countries env) (\<lambda>countries.
       io_return (first_country_with_code (upper code) countries))"

definition recommendation_params :: "int option \<Rightarrow> int \<Rightarrow> (string \<times> pval) list" where
  "recommendation_params country_id limit =
     (''limit'', PInt limit) #
     (case country_id of None \<Rightarrow> [] | Some i \<Rightarrow> [(''filters[country_id]'', PInt i)])"

definition get_recommendations :: "env \<Rightarrow> int option \<Rightarrow> int \<Rightarrow> RecommendedServer list io" where
  "get_recommendations env country_id limit w =
     (let params = recommendation_params country_id limit
      in request env (HttpGet (BASE_URL @ ''/v1/servers/recommendations'') params)
           (recommendations_endpoint env w params) w)"

definition get_servers :: "env \<Rightarrow> int \<Rightarrow> int option \<Rightarrow> Server list io" where
  "get_servers env limit country_id w =
     (let params = recommendation_params country_id limit @
            [(''filters[servers_technologies][identifier]'', PStr ''openvpn_udp'')]
      in request env (HttpGet (BASE_URL @ ''/v1/servers'') params)
           (servers_endpoint env w params) w)"

text \<open>The city filter of \<open>find_optimal_server\<close>, with its fall-back to all recommendations.\<close>

definition city_matches :: "string \<Rightarrow> RecommendedServer \<Rightarrow> bool" where
  "city_matches city_lower s =
     (case Rec_city s of None \<Rightarrow> False | Some c \<Rightarrow> str_in city_lower (lower (City_name c)))"

definition city_candidates :: "string option \<Rightarrow> RecommendedServer list \<Rightarrow> RecommendedServer list" where
  "city_candidates city recommendations =
     (if truthy city then
        (let city_lower = lower (case city of Some c \<Rightarrow> c | None \<Rightarrow> []);
             candidates = filter (city_matches city_lower) recommendations
         in if candidates = [] then recommendations else candidates)
      else recommendations)"

definition as_server :: "RecommendedServer \<Rightarrow> Server" where
  "as_server s =
     \<lparr>Server_id = Rec_id s, Server_name = Rec_name s, Server_station = Rec_station s,
      Server_hostname = Rec_hostname s, Server_load = Rec_load s, Server_status = Rec_status s,
      Server_locations = Rec_locations s, Server_technologies = Rec_technologies s,
      Server_ips = []\<rparr>"

text \<open>The loop \<open>for server in candidates: if server.load <= max_load: return ...\<close>.\<close>

fun first_under_load :: "int \<Rightarrow> RecommendedServer list \<Rightarrow> RecommendedServer option" where
  "first_under_load max_load [] = None"
| "first_under_load max_load (server # candidates) =
     (if Rec_load server \<le> max_load then Some server
      else first_under_load max_load candidates)"

text \<open>
  Python's \<open>min(xs, key=k)\<close> on a non-empty list: one pass that replaces the best element
  only by a strictly smaller one, so the first minimal element wins.
\<close>

fun min_from :: "('a \<Rightarrow> int) \<Rightarrow> 'a \<Rightarrow> 'a list \<Rightarrow> 'a" where
  "min_from key best [] = best"
| "min_from key best (x # xs) = min_from key (if key x < key best then x else best) xs"

definition select_server :: "RecommendedServer list \<Rightarrow> int \<Rightarrow> Server option" where
  "select_server candidates max_load =
     (case first_under_load max_load candidates of
        Some server \<Rightarrow> Some (as_server server)
      | None \<Rightarrow>
          (case candidates of
             [] \<Rightarrow> None
           | c # cs \<Rightarrow> Some (as_server (min_from Rec_load c cs))))"

definition find_optimal_server :: "env \<Rightarrow> string \<Rightarrow> string option \<Rightarrow> int \<Rightarrow> Server option io" where
  "find_optimal_server env country_code city max_load =
     io_bind (get_country_by_code env country_code) (\<lambda>country.
       case country of
         None \<Rightarrow> io_return None
       | Some c \<Rightarrow>
           io_bind (get_recommendations env (Some (Country_id c)) 20) (\<lambda>recommendations.
             io_return (select_server (city_candidates city recommendations) max_load)))"

definition normalize_hostname :: "string \<Rightarrow> string" where
  "normalize_hostname hostname =
     (if \<not> endswith hostname ''.nordvpn.com'' then hostname @ ''.nordvpn.com'' else hostname)"

definition get_server_by_hostname :: "env \<Rightarrow> string \<Rightarrow> Server option io" where
  "get_server_by_hostname env hostname0 w =
     (let hostname = normalize_hostname hostname0;
          params = [(''filters[hostname]'', PStr hostname), (''limit'', PInt 1)]
      in io_bind (request env (HttpGet (BASE_URL @ ''/v1/servers'') params)
                    (hostname_endpoint env w params))
           (\<lambda>servers. case servers of
                         [] \<Rightarrow> io_return None
                       | Inl e # _ \<Rightarrow> io_raise e
                       | Inr s # _ \<Rightarrow> io_return (Some s)) w)"

section \<open>GUI scripting bridge (vpn/tunnelblick.py)\<close>

datatype ConnectionState = CONNECTED | EXITING | DISCONNECTED | CONNECTING | SLEEPING | UNKNOWN

record TunnelblickStatus =
  tb_state :: ConnectionState
  tb_config_name :: "string option"
  tb_server_ip :: "string option"

definition dq :: string where
  "dq = [CHR 0x22]"

definition tell_tunnelblick :: "string \<Rightarrow> string" where
  "tell_tunnelblick command = ''tell application '' @ dq @ ''Tunnelblick'' @ dq @ '' to '' @ command"

text \<open>
  \<open>_run_applescript\<close>: \<open>subprocess.run(["osascript", "-e", script], ...)\<close>. A non-zero
  return code, \<open>TimeoutExpired\<close> and \<open>FileNotFoundError\<close> become \<open>TunnelblickError\<close>;
  any other exception of \<open>subprocess.run\<close> passes through.
\<close>

definition run_applescript :: "env \<Rightarrow> string \<Rightarrow> string io" where
  "run_applescript env script w =
     (let argv = [''osascript'', ''-e'', script]
      in request env (Subprocess argv)
           (case subprocess_run env w argv of
              Inr result \<Rightarrow>
                if returncode result \<noteq> 0 then
                  (let error = strip (stderr result)
                   in if str_in ''not running'' (lower error)
                      then Inl (TunnelblickError
                             ''Tunnelblick is not running. Please start Tunnelblick first.'')
                      else Inl (TunnelblickError (''AppleScript error: '' @ error)))
                else Inr (strip (stdout result))
            | Inl e \<Rightarrow>
                if e = TimeoutExpired then Inl (TunnelblickError ''Tunnelblick command timed out'')
                else if e = FileNotFoundError
                then Inl (TunnelblickError ''osascript not found - are you on macOS?'')
                else Inl e) w)"

definition list_configs :: "env \<Rightarrow> string list io" where
  "list_configs env =
     io_bind (run_applescript env (tell_tunnelblick ''get name of configurations'')) (\<lambda>result.
       io_return (if result = [] then [] else map strip (split_on CHR '','' result)))"

text \<open>The loop \<open>for i, state in enumerate(states)\<close> of \<open>get_status\<close>, from index \<open>i\<close> on.\<close>

fun scan_states :: "string list \<Rightarrow> string list \<Rightarrow> nat \<Rightarrow> TunnelblickStatus" where
  "scan_states [] configs i =
     \<lparr>tb_state = DISCONNECTED, tb_config_name = None, tb_server_ip = None\<rparr>"
| "scan_states (state # states) configs i =
     (if state = ''CONNECTED'' \<and> i < length configs then
        \<lparr>tb_state = CONNECTED, tb_config_name = Some (configs ! i), tb_server_ip = None\<rparr>
      else if state = ''CONNECTING'' \<and> i < length configs then
        \<lparr>tb_state = CONNECTING, tb_config_name = Some (configs ! i), tb_server_ip = None\<rparr>
      else scan_states states configs (Suc i))"

definition get_status :: "env \<Rightarrow> TunnelblickStatus io" where
  "get_status env w =
     (case run_applescript env (tell_tunnelblick ''get state of configurations'') w of
        (Inl (TunnelblickError msg), w1) \<Rightarrow>
          (Inr \<lparr>tb_state = UNKNOWN, tb_config_name = None, tb_server_ip = None\<rparr>, w1)
      | (Inl e, w1) \<Rightarrow> (Inl e, w1)
      | (Inr result, w1) \<Rightarrow>
          if result = [] then
            (Inr \<lparr>tb_state = DISCONNECTED, tb_config_name = None, tb_server_ip = None\<rparr>, w1)
          else
            (let states = map strip (split_on CHR '','' result)
             in io_bind (list_configs env) (\<lambda>configs.
                  io_return (scan_states states configs 0)) w1))"

lemma clock_run_applescript: "clock w \<le> clock (snd (run_applescript env script w))"
  by (simp add: run_applescript_def request_def emit_def Let_def)

lemma clock_list_configs: "clock w \<le> clock (snd (list_configs env w))"
  using clock_run_applescript [of w env "tell_tunnelblick ''get name of configurations''"]
  by (auto simp: list_configs_def io_bind_def io_return_def split: prod.splits sum.splits)

lemma clock_get_status: "clock w \<le> clock (snd (get_status env w))"
proof -
  let ?r = "run_applescript env (tell_tunnelblick ''get state of configurations'') w"
  have a: "clock w \<le> clock (snd ?r)" by (rule clock_run_applescript)
  have b: "clock (snd ?r) \<le> clock (snd (list_configs env (snd ?r)))" by (rule clock_list_configs)
  show ?thesis
    using a b
    by (auto simp: get_status_def io_bind_def io_return_def Let_def
             split: prod.splits sum.splits exn.splits)
qed

lemma poll_step_decreases:
  assumes "int (clock w) - int start < timeout * 1000" and "get_status env w = (r, w1)"
  shows "nat (timeout * 1000 - (int (clock (sleep env 1 w1)) - int start))
       < nat (timeout * 1000 - (int (clock w) - int start))"
proof -
  have "clock w \<le> clock w1"
    using clock_get_status [of w env] assms(2) by simp
  then have "clock w + 1000 \<le> clock (sleep env 1 w1)"
    by (simp add: sleep_def)
  with assms(1) show ?thesis by simp
qed

text \<open>
  The polling loop of \<open>connect\<close>; \<open>start\<close> is the clock reading taken before the loop and
  \<open>time.time() - start < timeout\<close> is compared in milliseconds.
\<close>

function poll_status :: "env \<Rightarrow> nat \<Rightarrow> int \<Rightarrow> bool io" where
  "poll_status env start timeout w =
     (if int (clock w) - int start < timeout * 1000 then
        (case get_status env w of
           (Inl e, w1) \<Rightarrow> (Inl e, w1)
         | (Inr status, w1) \<Rightarrow>
             if tb_state status = CONNECTED then (Inr True, w1)
             else if tb_state status = DISCONNECTED then (Inr False, w1)
             else poll_status env start timeout (sleep env 1 w1))
      else (Inr False, w))"
  by pat_completeness auto
termination
proof (relation "measure (\<lambda>(env, start, timeout, w). nat (timeout * 1000 - (int (clock w) - int start)))",
    goal_cases)
  case 1
  show ?case by simp
next
  case 2
  then show ?case
    using poll_step_decreases by (metis (no_types, lifting) in_measure old.prod.case)
qed

definition connect :: "env \<Rightarrow> string \<Rightarrow> bool \<Rightarrow> int \<Rightarrow> bool io" where
  "connect env config_name wait timeout =
     io_bind (run_applescript env (tell_tunnelblick (''connect '' @ dq @ config_name @ dq))) (\<lambda>_.
       if \<not> wait then io_return True
       else (\<lambda>w. poll_status env (clock w) timeout w))"

definition disconnect :: "env \<Rightarrow> bool io" where
  "disconnect env =
     io_bind (run_applescript env (tell_tunnelblick ''disconnect all'')) (\<lambda>_.
       io_bind (\<lambda>w. get_status env (sleep env 1 w)) (\<lambda>status.
         io_return (tb_state status = DISCONNECTED)))"

definition disconnect_config :: "env \<Rightarrow> string \<Rightarrow> bool io" where
  "disconnect_config env config_name =
     io_bind (run_applescript env (tell_tunnelblick (''disconnect '' @ dq @ config_name @ dq))) (\<lambda>_.
       (\<lambda>w. (Inr True, sleep env 1 w)))"

definition get_connected_config :: "env \<Rightarrow> string option io" where
  "get_connected_config env =
     io_bind (get_status env) (\<lambda>status.
       io_return (if tb_state status = CONNECTED then tb_config_name status else None))"

section \<open>Status reconciler (vpn/status.py)\<close>

record ConnectionStatus =
  cs_connected :: bool
  cs_config_name :: "string option"
  cs_server_hostname :: "string option"
  cs_public_ip :: "string option"
  cs_country :: "string option"
  cs_city :: "string option"
  cs_load :: "int option"

definition is_letter :: "char \<Rightarrow> bool" where
  "is_letter c = (c \<in> set (ascii_lowercase @ ascii_uppercase))"

definition is_digit :: "char \<Rightarrow> bool" where
  "is_digit c = (c \<in> set ''0123456789'')"

text \<open>
  \<open>re.match(r"^([a-z]{2}\d+\.nordvpn\.com)", config_name, re.IGNORECASE)\<close>: two letters,
  the longest run of digits (at least one; the next character of a match is the dot, so no
  shorter run can match), then the suffix in any letter case. The group is the matched
  text as it stands in \<open>config_name\<close>.
\<close>

definition extract_hostname_from_config :: "string \<Rightarrow> string option" where
  "extract_hostname_from_config config_name =
     (case config_name of
        a # b # rest \<Rightarrow>
          (let digits = takeWhile is_digit rest;
               suffix = take 12 (dropWhile is_digit rest)
           in if is_letter a \<and> is_letter b \<and> digits \<noteq> [] \<and> lower suffix = ''.nordvpn.com''
              then Some (a # b # digits @ suffix) else None)
      | _ \<Rightarrow> None)"

definition get_public_ip :: "env \<Rightarrow> string option io" where
  "get_public_ip env w =
     io_catch (io_bind (request env (HttpGet ''https://api.ipify.org'' []) (ipify_endpoint env w))
                 (\<lambda>(status_code, text).
                    io_return (if status_code = 200 then Some (strip text) else None)))
       (\<lambda>e. io_return None) w"

text \<open>
  The JSON object of the geolocation service is a dictionary from field names to strings;
  \<open>response.json()\<close> may raise.
\<close>

definition get_ip_info :: "env \<Rightarrow> string \<Rightarrow> (string \<rightharpoonup> string) option io" where
  "get_ip_info env ip w =
     (let url = ''https://ipinfo.io/'' @ ip @ ''/json''
      in io_catch (io_bind (request env (HttpGet url []) (ipinfo_endpoint env w url))
                     (\<lambda>(status_code, json).
                        if status_code = 200 then
                          (case json of Inl e \<Rightarrow> io_raise e | Inr d \<Rightarrow> io_return (Some d))
                        else io_return None))
           (\<lambda>e. io_return None) w)"

definition disconnected_status :: ConnectionStatus where
  "disconnected_status =
     \<lparr>cs_connected = False, cs_config_name = None, cs_server_hostname = None,
      cs_public_ip = None, cs_country = None, cs_city = None, cs_load = None\<rparr>"

text \<open>
  The geolocation step: \<open>city\<close> and \<open>country\<close> of the IP-info answer, probed only when
  the public IP is known. An empty dictionary is falsy in Python and has no fields, so
  both readings give \<open>None\<close> for it.
\<close>

definition locate :: "env \<Rightarrow> string option \<Rightarrow> (string option \<times> string option) io" where
  "locate env public_ip =
     (case public_ip of
        Some ip \<Rightarrow>
          if ip \<noteq> [] then
            io_bind (get_ip_info env ip) (\<lambda>ip_info.
              io_return (case ip_info of
                           Some d \<Rightarrow> (d ''city'', d ''country'')
                         | None \<Rightarrow> (None, None)))
          else io_return (None, None)
      | None \<Rightarrow> io_return (None, None))"

text \<open>
  The catalog step inside \<open>try ... except Exception: pass\<close>: the load of the server and
  the location fields that geolocation left empty.
\<close>

definition backfill ::
  "Server \<Rightarrow> string option \<times> string option \<Rightarrow> int option \<times> string option \<times> string option" where
  "backfill server location =
     (case location of (city, country) \<Rightarrow>
        (Some (Server_load server),
         (if \<not> truthy city then
            (case Server_city server of Some c \<Rightarrow> Some (City_name c) | None \<Rightarrow> city)
          else city),
         (if \<not> truthy country then
            (case Server_country server of Some c \<Rightarrow> Some (Country_name c) | None \<Rightarrow> country)
          else country)))"

definition lookup_load ::
  "env \<Rightarrow> string option \<Rightarrow> string option \<times> string option \<Rightarrow>
     (int option \<times> string option \<times> string option) io" where
  "lookup_load env hostname location =
     (case hostname of
        Some h \<Rightarrow>
          if h \<noteq> [] then
            io_catch (io_bind (get_server_by_hostname env h) (\<lambda>server.
                        io_return (case server of
                                     Some s \<Rightarrow> backfill s location
                                   | None \<Rightarrow> (None, location))))
              (\<lambda>e. io_return (None, location))
          else io_return (None, location)
      | None \<Rightarrow> io_return (None, location))"

definition get_connection_status :: "env \<Rightarrow> ConnectionStatus io" where
  "get_connection_status env =
     io_bind (get_status env) (\<lambda>tb_status.
       if tb_state tb_status \<noteq> CONNECTED then io_return disconnected_status
       else
         (let config_name = tb_config_name tb_status;
              hostname = (case config_name of
                            Some n \<Rightarrow> if n \<noteq> [] then extract_hostname_from_config n else None
                          | None \<Rightarrow> None)
          in io_bind (get_public_ip env) (\<lambda>public_ip.
             io_bind (locate env public_ip) (\<lambda>location.
             io_bind (lookup_load env hostname location) (\<lambda>(load, city, country).
               io_return
                 \<lparr>cs_connected = True, cs_config_name = config_name,
                  cs_server_hostname = hostname, cs_public_ip = public_ip,
                  cs_country = country, cs_city = city, cs_load = load\<rparr>)))))"

section \<open>Paths and the file system\<close>

text \<open>
  \<open>pathlib\<close>: the parts of a path, its \<open>name\<close> (last part), its \<open>stem\<close> (the name up to
  its last dot, when that dot is neither first nor last), \<open>p / s\<close> and \<open>str(p)\<close>. The root
  is the part \<open>''/''\<close>. Symbolic links and \<open>..\<close> are outside the model.
\<close>

definition path_name :: "path \<Rightarrow> string" where
  "path_name p = (if p = [] \<or> p = [''/''] then [] else last p)"

definition rfind :: "char \<Rightarrow> string \<Rightarrow> nat option" where
  "rfind c s =
     (if c \<in> set s then Some (length s - 1 - length (takeWhile (\<lambda>x. x \<noteq> c) (rev s))) else None)"

definition path_stem :: "path \<Rightarrow> string" where
  "path_stem p =
     (let name = path_name p
      in case rfind CHR ''.'' name of
           None \<Rightarrow> name
         | Some i \<Rightarrow> if 0 < i \<and> Suc i < length name then take i name else name)"

definition parts :: "string \<Rightarrow> string list" where
  "parts s = filter (\<lambda>c. c \<noteq> [] \<and> c \<noteq> ''.'') (split_on CHR ''/'' s)"

definition path_div :: "path \<Rightarrow> string \<Rightarrow> path" where
  "path_div p s =
     (case s of
        [] \<Rightarrow> p
      | c # _ \<Rightarrow> if c = CHR ''/'' then ''/'' # parts s else p @ parts s)"

fun join_parts :: "string list \<Rightarrow> string" where
  "join_parts [] = []"
| "join_parts [x] = x"
| "join_parts (x # y # ys) = x @ ''/'' @ join_parts (y # ys)"

definition path_str :: "path \<Rightarrow> string" where
  "path_str p =
     (case p of
        [] \<Rightarrow> ''.''
      | x # xs \<Rightarrow> if x = ''/'' then ''/'' @ join_parts xs else join_parts (x # xs))"

text \<open>The working directory (no parts) and the root always exist and are directories.\<close>

definition lookup :: "(path \<rightharpoonup> node) \<Rightarrow> path \<Rightarrow> node option" where
  "lookup fs p = (if p = [] \<or> p = [''/''] then Some Dir else fs p)"

definition path_exists :: "world \<Rightarrow> path \<Rightarrow> bool" where
  "path_exists w p = (lookup (files w) p \<noteq> None)"

text \<open>What creating an entry at \<open>p\<close> requires of its parent directory.\<close>

definition parent_error :: "(path \<rightharpoonup> node) \<Rightarrow> path \<Rightarrow> exn option" where
  "parent_error fs p =
     (case lookup fs (butlast p) of
        None \<Rightarrow> Some FileNotFoundError
      | Some (File _ _) \<Rightarrow> Some NotADirectoryError
      | Some Dir \<Rightarrow> None)"

text \<open>
  A file-system call: it is logged, may fail as the environment decides, and otherwise
  acts on the files as \<open>step\<close> says.
\<close>

definition fs_call :: "env \<Rightarrow> event \<Rightarrow> ((path \<rightharpoonup> node) \<Rightarrow> exn + (path \<rightharpoonup> node)) \<Rightarrow> unit io" where
  "fs_call env ev step w =
     (let w1 = emit env ev w
      in case fs_fault env w ev of
           Some e \<Rightarrow> (Inl e, w1)
         | None \<Rightarrow>
             (case step (files w) of
                Inl e \<Rightarrow> (Inl e, w1)
              | Inr fs \<Rightarrow> (Inr (), w1\<lparr>files := fs\<rparr>)))"

definition rmtree :: "env \<Rightarrow> path \<Rightarrow> unit io" where
  "rmtree env p =
     fs_call env (Rmtree p) (\<lambda>fs.
       case lookup fs p of
         None \<Rightarrow> Inl FileNotFoundError
       | Some (File _ _) \<Rightarrow> Inl NotADirectoryError
       | Some Dir \<Rightarrow> Inr (\<lambda>q. if prefix p q then None else fs q))"

definition mkdir :: "env \<Rightarrow> path \<Rightarrow> unit io" where
  "mkdir env p =
     fs_call env (Mkdir p) (\<lambda>fs.
       if lookup fs p \<noteq> None then Inl FileExistsError
       else (case parent_error fs p of Some e \<Rightarrow> Inl e | None \<Rightarrow> Inr (fs(p \<mapsto> Dir))))"

text \<open>\<open>mkdir(parents=True, exist_ok=True)\<close>: every missing ancestor is created, outermost first.\<close>

fun make_dirs :: "path list \<Rightarrow> (path \<rightharpoonup> node) \<Rightarrow> exn + (path \<rightharpoonup> node)" where
  "make_dirs [] fs = Inr fs"
| "make_dirs (q # qs) fs =
     (case lookup fs q of
        None \<Rightarrow> make_dirs qs (fs(q \<mapsto> Dir))
      | Some Dir \<Rightarrow> make_dirs qs fs
      | Some (File _ _) \<Rightarrow> Inl (if qs = [] then FileExistsError else NotADirectoryError))"

definition mkdir_parents :: "env \<Rightarrow> path \<Rightarrow> unit io" where
  "mkdir_parents env p =
     fs_call env (MkdirParents p) (make_dirs (map (\<lambda>n. take n p) [1..<Suc (length p)]))"

text \<open>Creating or overwriting the regular file \<open>p\<close>; an existing file keeps its mode unless one is given.\<close>

definition put_file ::
  "(path \<rightharpoonup> node) \<Rightarrow> path \<Rightarrow> string \<Rightarrow> nat option \<Rightarrow> nat \<Rightarrow> exn + (path \<rightharpoonup> node)" where
  "put_file fs p content mode create_mode =
     (case lookup fs p of
        Some Dir \<Rightarrow> Inl IsADirectoryError
      | Some (File _ m) \<Rightarrow> Inr (fs(p \<mapsto> File content (case mode of Some m' \<Rightarrow> m' | None \<Rightarrow> m)))
      | None \<Rightarrow>
          (case parent_error fs p of
             Some e \<Rightarrow> Inl e
           | None \<Rightarrow>
               Inr (fs(p \<mapsto> File content (case mode of Some m' \<Rightarrow> m' | None \<Rightarrow> create_mode)))))"

text \<open>
  \<open>shutil.copy2(src, dst)\<close>: content and permission bits are copied; a directory \<open>dst\<close>
  receives the file under the name of \<open>src\<close>.
\<close>

definition copy2 :: "env \<Rightarrow> path \<Rightarrow> path \<Rightarrow> unit io" where
  "copy2 env src dst =
     fs_call env (Copy2 src dst) (\<lambda>fs.
       case lookup fs src of
         None \<Rightarrow> Inl FileNotFoundError
       | Some Dir \<Rightarrow> Inl IsADirectoryError
       | Some (File content mode) \<Rightarrow>
           (let target = (if lookup fs dst = Some Dir then path_div dst (path_name src) else dst)
            in if target = src then Inl SameFileError
               else put_file fs target content (Some mode) (file_create_mode env)))"

definition write_text :: "env \<Rightarrow> path \<Rightarrow> string \<Rightarrow> unit io" where
  "write_text env p content =
     fs_call env (WriteText p content) (\<lambda>fs. put_file fs p content None (file_create_mode env))"

definition write_bytes :: "env \<Rightarrow> path \<Rightarrow> string \<Rightarrow> unit io" where
  "write_bytes env p content =
     fs_call env (WriteBytes p content) (\<lambda>fs. put_file fs p content None (file_create_mode env))"

definition chmod :: "env \<Rightarrow> path \<Rightarrow> nat \<Rightarrow> unit io" where
  "chmod env p mode =
     fs_call env (Chmod p mode) (\<lambda>fs.
       case lookup fs p of
         None \<Rightarrow> Inl FileNotFoundError
       | Some Dir \<Rightarrow> Inr fs
       | Some (File content _) \<Rightarrow> Inr (fs(p \<mapsto> File content mode)))"

definition touch :: "env \<Rightarrow> path \<Rightarrow> unit io" where
  "touch env p =
     fs_call env (Touch p) (\<lambda>fs.
       case lookup fs p of
         Some _ \<Rightarrow> Inr fs
       | None \<Rightarrow>
           (case parent_error fs p of
              Some e \<Rightarrow> Inl e
            | None \<Rightarrow> Inr (fs(p \<mapsto> File [] (file_create_mode env)))))"

section \<open>Config bundle builder (vpn/config_manager.py)\<close>

definition OVPN_CONFIG_URL :: "string \<Rightarrow> string" where
  "OVPN_CONFIG_URL hostname =
     ''https://downloads.nordcdn.com/configs/files/ovpn_udp/servers/'' @ hostname @ ''.udp.ovpn''"

text \<open>\<open>ConfigManager(config_dir)\<close>: the object is its \<open>config_dir\<close>, created if missing.\<close>

definition ConfigManager :: "env \<Rightarrow> path option \<Rightarrow> path io" where
  "ConfigManager env config_dir0 =
     (let config_dir = (case config_dir0 of None \<Rightarrow> path_div (cwd env) ''configs'' | Some d \<Rightarrow> d)
      in io_bind (mkdir_parents env config_dir) (\<lambda>_. io_return config_dir))"

definition hostname_to_config_name :: "string \<Rightarrow> string" where
  "hostname_to_config_name hostname = normalize_hostname hostname @ ''.udp''"

definition download_config :: "env \<Rightarrow> path \<Rightarrow> string \<Rightarrow> path io" where
  "download_config env config_dir hostname0 =
     (let hostname = normalize_hostname hostname0;
          url = OVPN_CONFIG_URL hostname;
          output_path = path_div config_dir (hostname @ ''.udp.ovpn'')
      in io_bind (\<lambda>w. request env (HttpGet url []) (download_endpoint env w url) w) (\<lambda>content.
         io_bind (write_bytes env output_path content) (\<lambda>_.
           io_return output_path)))"

definition nl :: string where
  "nl = [CHR 0x0A]"

text \<open>The mode \<open>0o600\<close>.\<close>

definition mode_0600 :: nat where
  "mode_0600 = 6 * 64"

definition pass_file_of :: "path \<Rightarrow> path \<Rightarrow> path" where
  "pass_file_of config_dir ovpn_path =
     path_div (path_div config_dir (path_stem ovpn_path @ ''.tblk'')) (path_stem ovpn_path @ ''.pass'')"

definition create_tblk_package :: "env \<Rightarrow> path \<Rightarrow> path \<Rightarrow> string \<Rightarrow> string \<Rightarrow> path io" where
  "create_tblk_package env config_dir ovpn_path username password =
     (let tblk_name = path_stem ovpn_path;
          tblk_path = path_div config_dir (tblk_name @ ''.tblk'');
          config_dest = path_div tblk_path (path_name ovpn_path);
          pass_file = path_div tblk_path (path_stem ovpn_path @ ''.pass'')
      in io_bind (\<lambda>w. if path_exists w tblk_path then rmtree env tblk_path w else io_return () w) (\<lambda>_.
         io_bind (mkdir env tblk_path) (\<lambda>_.
         io_bind (copy2 env ovpn_path config_dest) (\<lambda>_.
         io_bind (write_text env pass_file (username @ nl @ password @ nl)) (\<lambda>_.
         io_bind (chmod env pass_file mode_0600) (\<lambda>_.
         io_bind (touch env (path_div tblk_path ''autoLogin'')) (\<lambda>_.
           io_return tblk_path)))))))"

definition install_config :: "env \<Rightarrow> path \<Rightarrow> bool io" where
  "install_config env tblk_path w =
     (let argv = [''open'', path_str tblk_path]
      in request env (Subprocess argv)
           (case subprocess_run env w argv of
              Inl e \<Rightarrow> Inl e
            | Inr result \<Rightarrow> Inr (returncode result = 0)) w)"

definition setup_server :: "env \<Rightarrow> path \<Rightarrow> string \<Rightarrow> string \<Rightarrow> string \<Rightarrow> string io" where
  "setup_server env config_dir hostname username password =
     io_bind (download_config env config_dir hostname) (\<lambda>ovpn_path.
     io_bind (create_tblk_package env config_dir ovpn_path username password) (\<lambda>tblk_path.
     io_bind (install_config env tblk_path) (\<lambda>_.
       io_return (hostname_to_config_name hostname))))"

section \<open>Connection orchestrator (cli.py)\<close>

record Credentials =
  Credentials_username :: string
  Credentials_password :: string

text \<open>
  \<open>do_connect\<close>, closed over the options \<open>country\<close>, \<open>city\<close>, \<open>server\<close> and the credentials.
  Console output is not modelled. The first part resolves the host name: the given server,
  or the selector's choice (\<open>None\<close> when it finds no server).
\<close>

definition resolve_hostname ::
  "env \<Rightarrow> string option \<Rightarrow> string option \<Rightarrow> string option \<Rightarrow> string option io" where
  "resolve_hostname env country city server =
     (if truthy server then
        io_return (Some (normalize_hostname (case server of Some h \<Rightarrow> h | None \<Rightarrow> [])))
      else
        (case country of
           None \<Rightarrow> io_raise AttributeError
         | Some cc \<Rightarrow>
             io_bind (find_optimal_server env cc city 30) (\<lambda>optimal.
               io_return (case optimal of
                            None \<Rightarrow> None
                          | Some s \<Rightarrow> Some (Server_hostname s)))))"

definition ensure_config :: "env \<Rightarrow> path \<Rightarrow> string \<Rightarrow> Credentials \<Rightarrow> string io" where
  "ensure_config env config_manager hostname creds =
     (let config_name = hostname @ ''.udp''
      in io_bind (list_configs env) (\<lambda>installed_configs.
           if config_name \<notin> set installed_configs then
             io_bind (setup_server env config_manager hostname (Credentials_username creds)
                  (Credentials_password creds))
               (\<lambda>config_name. (\<lambda>w. (Inr config_name, sleep env 3 w)))
           else io_return config_name))"

definition do_connect ::
  "env \<Rightarrow> string option \<Rightarrow> string option \<Rightarrow> string option \<Rightarrow> Credentials \<Rightarrow> bool io" where
  "do_connect env country city server creds =
     io_bind (ConfigManager env None) (\<lambda>config_manager.
     io_bind (resolve_hostname env country city server) (\<lambda>resolved.
       case resolved of
         None \<Rightarrow> io_return False
       | Some hostname \<Rightarrow>
           io_bind (ensure_config env config_manager hostname creds) (\<lambda>config_name.
           io_bind (io_catch (io_bind (connect env config_name True 30) (\<lambda>b. io_return (Some b)))
                      (\<lambda>e. case e of
                              TunnelblickError _ \<Rightarrow> io_return None
                            | _ \<Rightarrow> io_raise e))
             (\<lambda>success.
                if success = Some True then
                  io_bind (get_connection_status env) (\<lambda>conn_status. io_return True)
                else io_return False))))"

section \<open>Example environments\<close>

text \<open>
  Concrete environments and worlds on which the theorems below are instantiated: an
  environment that answers every request with nothing, and catalogs built on it.
\<close>

definition quiet_env :: env where
  "quiet_env =
     \<lparr>latency = (\<lambda>w ev. 0),
      subprocess_run = (\<lambda>w argv. Inr \<lparr>returncode = 0, stdout = [], stderr = []\<rparr>),
      countries_endpoint = (\<lambda>w. Inr []),
      recommendations_endpoint = (\<lambda>w params. Inr []),
      servers_endpoint = (\<lambda>w params. Inr []),
      hostname_endpoint = (\<lambda>w params. Inr []),
      download_endpoint = (\<lambda>w url. Inr []),
      ipify_endpoint = (\<lambda>w. Inl (HTTPError [])),
      ipinfo_endpoint = (\<lambda>w url. Inl (HTTPError [])),
      fs_fault = (\<lambda>w ev. None),
      file_create_mode = 420,
      cwd = [''/'', ''work'']\<rparr>"

definition empty_world :: world where
  "empty_world = \<lparr>clock = 0, trace = [], files = Map.empty\<rparr>"

definition demo_country :: "string \<Rightarrow> string \<Rightarrow> string option \<Rightarrow> Country" where
  "demo_country code name city =
     \<lparr>Country_id = 228, Country_name = name, Country_code = code,
      Country_city = (case city of None \<Rightarrow> None
         | Some n \<Rightarrow> Some \<lparr>City_id = 1, City_name = n, City_latitude = 0, City_longitude = 0,
                           City_dns_name = None, City_hub_score = None\<rparr>)\<rparr>"

definition demo_rec :: "string \<Rightarrow> int \<Rightarrow> string option \<Rightarrow> RecommendedServer" where
  "demo_rec host load city =
     \<lparr>Rec_id = load, Rec_name = host, Rec_station = host, Rec_hostname = host, Rec_load = load,
      Rec_status = ''online'',
      Rec_locations = [\<lparr>ServerLocation_id = 1, ServerLocation_country = demo_country ''GB'' ''United Kingdom'' city,
                         ServerLocation_latitude = 0, ServerLocation_longitude = 0\<rparr>],
      Rec_technologies = []\<rparr>"

definition demo_catalog :: "RecommendedServer list \<Rightarrow> env" where
  "demo_catalog recs =
     quiet_env\<lparr>countries_endpoint := (\<lambda>w. Inr [demo_country ''DE'' ''Germany'' None, demo_country ''GB'' ''United Kingdom'' None]),
               recommendations_endpoint := (\<lambda>w params. Inr recs)\<rparr>"

definition uk_recs :: "RecommendedServer list" where
  "uk_recs = [demo_rec ''uk1'' 44 (Some ''Manchester''), demo_rec ''uk2'' 12 None,
              demo_rec ''uk3'' 5 (Some ''London'')]"

text \<open>
  A GUI with two configurations: the scripting bridge answers the state query with
  \<open>states\<close> and the name query with \<open>names\<close>.
\<close>

definition demo_gui :: "string \<Rightarrow> string \<Rightarrow> env" where
  "demo_gui states names =
     quiet_env\<lparr>subprocess_run := (\<lambda>w argv.
        if argv = [''osascript'', ''-e'', tell_tunnelblick ''get state of configurations'']
        then Inr \<lparr>returncode = 0, stdout = states, stderr = []\<rparr>
        else if argv = [''osascript'', ''-e'', tell_tunnelblick ''get name of configurations'']
        then Inr \<lparr>returncode = 0, stdout = names, stderr = []\<rparr>
        else Inr \<lparr>returncode = 0, stdout = [], stderr = []\<rparr>)\<rparr>"

text \<open>The effects issued between two worlds, and classes of effects.\<close>

definition new_events :: "world \<Rightarrow> world \<Rightarrow> event list" where
  "new_events w w' = drop (length (trace w)) (trace w')"

definition issues :: "(event \<Rightarrow> bool) \<Rightarrow> world \<Rightarrow> world \<Rightarrow> bool" where
  "issues P w w' = (prefix (trace w) (trace w') \<and> list_all P (new_events w w'))"

fun is_script :: "event \<Rightarrow> bool" where
  "is_script (Subprocess argv) = (length argv = 3 \<and> take 2 argv = [''osascript'', ''-e''])"
| "is_script _ = False"

fun is_http_get :: "event \<Rightarrow> bool" where
  "is_http_get (HttpGet url params) = True"
| "is_http_get _ = False"

text \<open>
  The scenario of a connected German server: the GUI reports \<open>de123.nordvpn.com.udp\<close> as
  connected, the public-IP probe fails, and the catalog knows the server.
\<close>

definition frankfurt_server :: Server where
  "frankfurt_server =
     \<lparr>Server_id = 123, Server_name = ''Germany #123'', Server_station = ''de123.nordvpn.com'',
      Server_hostname = ''de123.nordvpn.com'', Server_load = 14, Server_status = ''online'',
      Server_locations =
        [\<lparr>ServerLocation_id = 1,
           ServerLocation_country = demo_country ''DE'' ''Germany'' (Some ''Frankfurt''),
           ServerLocation_latitude = 0, ServerLocation_longitude = 0\<rparr>],
      Server_technologies = [], Server_ips = []\<rparr>"

definition demo_net :: "string \<Rightarrow> string \<Rightarrow> env" where
  "demo_net states names =
     (demo_gui states names)\<lparr>hostname_endpoint := (\<lambda>w params. Inr [Inr frankfurt_server])\<rparr>"

text \<open>
  The observations of the polling loop of \<open>connect\<close>. \<open>poll_world env w0 n\<close> is the world in
  which poll number \<open>n\<close> starts when the loop is entered in \<open>w0\<close>: between two polls lie
  the status query and one \<open>sleep(1)\<close>. \<open>in_time\<close> is the loop condition;
  \<open>poll_pending\<close> says that a poll starts in time and observes neither \<open>CONNECTED\<close> nor
  \<open>DISCONNECTED\<close>, so that another poll follows.
\<close>

fun poll_world :: "env \<Rightarrow> world \<Rightarrow> nat \<Rightarrow> world" where
  "poll_world env w0 0 = w0"
| "poll_world env w0 (Suc n) = sleep env 1 (snd (get_status env (poll_world env w0 n)))"

definition in_time :: "nat \<Rightarrow> int \<Rightarrow> world \<Rightarrow> bool" where
  "in_time start timeout w = (int (clock w) - int start < timeout * 1000)"

definition observes :: "env \<Rightarrow> world \<Rightarrow> ConnectionState \<Rightarrow> bool" where
  "observes env w s = (case fst (get_status env w) of Inr status \<Rightarrow> tb_state status = s | Inl e \<Rightarrow> False)"

definition poll_pending :: "env \<Rightarrow> nat \<Rightarrow> int \<Rightarrow> world \<Rightarrow> bool" where
  "poll_pending env start timeout w =
     (in_time start timeout w \<and>
      (case fst (get_status env w) of
         Inr status \<Rightarrow> tb_state status \<noteq> CONNECTED \<and> tb_state status \<noteq> DISCONNECTED
       | Inl e \<Rightarrow> False))"

text \<open>A GUI whose reported states depend on the time of the query.\<close>

definition timed_gui :: "(nat \<Rightarrow> string) \<Rightarrow> env" where
  "timed_gui states_at =
     quiet_env\<lparr>subprocess_run := (\<lambda>w argv.
        if argv = [''osascript'', ''-e'', tell_tunnelblick ''get state of configurations'']
        then Inr \<lparr>returncode = 0, stdout = states_at (clock w), stderr = []\<rparr>
        else if argv = [''osascript'', ''-e'', tell_tunnelblick ''get name of configurations'']
        then Inr \<lparr>returncode = 0, stdout = ''us5090.nordvpn.com.udp'', stderr = []\<rparr>
        else Inr \<lparr>returncode = 0, stdout = [], stderr = []\<rparr>)\<rparr>"

definition connects_late :: env where
  "connects_late = timed_gui (\<lambda>t. if t < 2000 then ''CONNECTING'' else ''CONNECTED'')"

definition drops_out :: env where
  "drops_out = timed_gui (\<lambda>t. if t < 1000 then ''CONNECTING'' else ''DISCONNECTED'')"

definition never_connects :: env where
  "never_connects = timed_gui (\<lambda>t. ''CONNECTING'')"

fun is_open :: "event \<Rightarrow> bool" where
  "is_open (Subprocess argv) = (take 1 argv = [''open''])"
| "is_open _ = False"

text \<open>A staging directory that holds nothing but itself; the CDN serves a profile.\<close>

definition staging_world :: world where
  "staging_world = \<lparr>clock = 0, trace = [], files = [[''configs''] \<mapsto> Dir]\<rparr>"

definition cdn_env :: env where
  "cdn_env = quiet_env\<lparr>download_endpoint := (\<lambda>w url. Inr ''client''), cwd := []\<rparr>"




section \<open>Evaluation rules\<close>

lemmas str_eval = lower_def lower_char_def upper_def upper_char_def ascii_uppercase_def ascii_lowercase_def
  is_space_def whitespace_def strip_def endswith_def

lemmas demo_eval = quiet_env_def empty_world_def demo_country_def demo_rec_def demo_catalog_def

section \<open>Server selector\<close>













lemma city_candidates_no_match:
  assumes "\<forall>s \<in> set recs. \<not> city_matches (lower city) s"
  shows "city_candidates (Some city) recs = city_candidates None recs"
proof -
  from assms have "filter (city_matches (lower city)) recs = []"
    by (simp add: filter_empty_conv)
  then show ?thesis by (simp add: city_candidates_def Let_def)
qed

text \<open>
  Claim C9. If no recommended server of the country has a city whose name contains the
  city string (both lower-cased), \<open>find_optimal_server\<close> with that city returns exactly
  what it returns without a city, on the same catalog responses.
\<close>

theorem city_filter_fallback:
  assumes "\<forall>c w1 recs w2.
      get_country_by_code env country_code w = (Inr (Some c), w1) \<and>
      get_recommendations env (Some (Country_id c)) 20 w1 = (Inr recs, w2) \<longrightarrow>
      (\<forall>s \<in> set recs. \<not> city_matches (lower city) s)"
  shows "find_optimal_server env country_code (Some city) max_load w =
         find_optimal_server env country_code None max_load w"
proof (cases "get_country_by_code env country_code w")
  case (Pair r w1)
  show ?thesis
  proof (cases r)
    case (Inl e)
    with Pair show ?thesis by (simp add: find_optimal_server_def io_bind_def)
  next
    case (Inr country)
    show ?thesis
    proof (cases country)
      case None
      with Pair Inr show ?thesis by (simp add: find_optimal_server_def io_bind_def)
    next
      case (Some c)
      obtain rr w2 where rr: "get_recommendations env (Some (Country_id c)) 20 w1 = (rr, w2)"
        by (cases "get_recommendations env (Some (Country_id c)) 20 w1")
      show ?thesis
      proof (cases rr)
        case (Inl e)
        with Pair Inr Some rr show ?thesis by (simp add: find_optimal_server_def io_bind_def)
      next
        case Inr2: (Inr recs)
        from assms Pair Inr Some rr Inr2 have "\<forall>s \<in> set recs. \<not> city_matches (lower city) s"
          by blast
        then have "city_candidates (Some city) recs = city_candidates None recs"
          by (rule city_candidates_no_match)
        with Pair Inr Some rr Inr2 show ?thesis
          by (simp add: find_optimal_server_def io_bind_def io_return_def)
      qed
    qed
  qed
qed

theorem city_filter_fallback_witness:
  "find_optimal_server (demo_catalog uk_recs) ''gb'' (Some ''Atlantis'') 30 empty_world =
   find_optimal_server (demo_catalog uk_recs) ''gb'' None 30 empty_world \<and>
   fst (find_optimal_server (demo_catalog uk_recs) ''gb'' None 30 empty_world) =
     Inr (Some (as_server (demo_rec ''uk2'' 12 None)))"
proof -
  have recs: "get_recommendations (demo_catalog uk_recs) cid 20 w1 = (Inr recs, w2) \<Longrightarrow> recs = uk_recs"
    for cid w1 recs w2
    by (simp add: get_recommendations_def request_def Let_def demo_eval)
  have no: "\<forall>s \<in> set uk_recs. \<not> city_matches (lower ''Atlantis'') s"
    by (simp add: uk_recs_def city_matches_def Rec_city_def demo_eval str_eval)
  have "find_optimal_server (demo_catalog uk_recs) ''gb'' (Some ''Atlantis'') 30 empty_world =
        find_optimal_server (demo_catalog uk_recs) ''gb'' None 30 empty_world"
    by (rule city_filter_fallback) (use recs no in blast)
  moreover have "fst (find_optimal_server (demo_catalog uk_recs) ''gb'' None 30 empty_world) =
     Inr (Some (as_server (demo_rec ''uk2'' 12 None)))"
    by (simp add: find_optimal_server_def get_country_by_code_def get_countries_def
          get_recommendations_def request_def io_bind_def io_return_def Let_def
          city_candidates_def select_server_def uk_recs_def demo_eval str_eval)
  ultimately show ?thesis by simp
qed

lemmas gui_eval = run_applescript_def list_configs_def get_status_def tell_tunnelblick_def dq_def
  demo_gui_def request_def emit_def io_bind_def io_return_def Let_def

text \<open>
  Claim C2. \<open>get_status\<close> is claimed to report the first \<open>CONNECTED\<close> configuration and to
  fall back to the first \<open>CONNECTING\<close> one only if none is connected. The loop returns at
  the first configuration that is in either state: with the states
  \<open>CONNECTING, CONNECTED\<close> it reports the connecting configuration although the second
  one is connected.
\<close>

theorem get_status_connecting_before_connected:
  "fst (get_status (demo_gui ''CONNECTING, CONNECTED'' ''de1.nordvpn.com.udp, us5090.nordvpn.com.udp'')
         empty_world) =
   Inr \<lparr>tb_state = CONNECTING, tb_config_name = Some ''de1.nordvpn.com.udp'', tb_server_ip = None\<rparr>"
  by (simp add: gui_eval demo_eval str_eval)

section \<open>Effects of the operations\<close>

lemma issues_refl: "issues P w w"
  by (simp add: issues_def new_events_def)

lemma issuesI: "trace w' = trace w @ evs \<Longrightarrow> list_all P evs \<Longrightarrow> issues P w w'"
  by (simp add: issues_def new_events_def)

lemma issuesE: "issues P w w' \<Longrightarrow> \<exists>evs. trace w' = trace w @ evs \<and> list_all P evs \<and> new_events w w' = evs"
  by (auto simp: issues_def new_events_def prefix_def)

lemma issues_trans: "issues P w w1 \<Longrightarrow> issues P w1 w2 \<Longrightarrow> issues P w w2"
proof -
  assume "issues P w w1" "issues P w1 w2"
  then obtain evs evs' where "trace w1 = trace w @ evs" "list_all P evs"
    "trace w2 = trace w1 @ evs'" "list_all P evs'"
    by (meson issuesE)
  then show ?thesis by (intro issuesI [of _ _ "evs @ evs'"]) simp_all
qed

lemma issues_mono: "issues P w w' \<Longrightarrow> (\<And>ev. P ev \<Longrightarrow> Q ev) \<Longrightarrow> issues Q w w'"
  by (auto simp: issues_def list_all_iff)

lemma issues_emit: "P ev \<Longrightarrow> issues P w (emit env ev w)"
  by (rule issuesI [of _ _ "[ev]"]) (simp_all add: emit_def)

lemma issues_sleep: "P (Sleep n) \<Longrightarrow> issues P w (sleep env n w)"
  by (rule issuesI [of _ _ "[Sleep n]"]) (simp_all add: sleep_def)

lemma issues_request: "P ev \<Longrightarrow> issues P w (snd (request env ev answer w))"
  by (simp add: request_def issues_emit)

lemma issues_bind:
  assumes "issues P w (snd (m w))" and "\<And>x w1. m w = (Inr x, w1) \<Longrightarrow> issues P w1 (snd (f x w1))"
  shows "issues P w (snd (io_bind m f w))"
proof (cases "m w")
  case (Pair r w1)
  show ?thesis
  proof (cases r)
    case (Inl e)
    with Pair assms(1) show ?thesis by (simp add: io_bind_def)
  next
    case (Inr x)
    with Pair assms(1) assms(2) [of x w1] show ?thesis
      by (simp add: io_bind_def) (metis issues_trans snd_conv)
  qed
qed

lemma issues_catch:
  assumes "issues P w (snd (m w))" and "\<And>e w1. m w = (Inl e, w1) \<Longrightarrow> issues P w1 (snd (h e w1))"
  shows "issues P w (snd (io_catch m h w))"
proof (cases "m w")
  case (Pair r w1)
  show ?thesis
  proof (cases r)
    case (Inr x)
    with Pair assms(1) show ?thesis by (simp add: io_catch_def)
  next
    case (Inl e)
    with Pair assms(1) assms(2) [of e w1] show ?thesis
      by (simp add: io_catch_def) (metis issues_trans snd_conv)
  qed
qed

lemma issues_return: "issues P w (snd (io_return x w))"
  by (simp add: io_return_def issues_refl)

lemma issues_raise: "issues P w (snd (io_raise e w))"
  by (simp add: io_raise_def issues_refl)

lemma files_emit: "files (emit env ev w) = files w"
  by (simp add: emit_def)

lemma files_sleep: "files (sleep env n w) = files w"
  by (simp add: sleep_def)

lemma run_applescript_world:
  "snd (run_applescript env script w) = emit env (Subprocess [''osascript'', ''-e'', script]) w"
  by (simp add: run_applescript_def request_def Let_def)

lemma issues_run_applescript: "issues is_script w (snd (run_applescript env script w))"
  by (simp add: run_applescript_world issues_emit)

lemma issues_list_configs: "issues is_script w (snd (list_configs env w))"
  unfolding list_configs_def
  by (intro issues_bind issues_run_applescript issues_return)

lemma issues_get_status: "issues is_script w (snd (get_status env w))"
proof -
  let ?m = "run_applescript env (tell_tunnelblick ''get state of configurations'')"
  obtain r w1 where r: "?m w = (r, w1)" by (cases "?m w")
  have a: "issues is_script w w1"
    using issues_run_applescript [of w env "tell_tunnelblick ''get state of configurations''"] r by simp
  have b: "issues is_script w1 (snd (io_bind (list_configs env) (\<lambda>configs. io_return (g configs)) w1))"
    for g :: "string list \<Rightarrow> TunnelblickStatus"
    by (intro issues_bind issues_list_configs issues_return)
  have "issues is_script w1 (snd (get_status env w))"
    using r b by (auto simp: get_status_def Let_def issues_refl io_return_def
        split: sum.splits exn.splits)
  with a show ?thesis by (rule issues_trans)
qed

lemma files_run_applescript: "files (snd (run_applescript env script w)) = files w"
  by (simp add: run_applescript_world files_emit)

lemma files_bind:
  assumes "files (snd (m w)) = files w"
    and "\<And>x w1. m w = (Inr x, w1) \<Longrightarrow> files (snd (f x w1)) = files w1"
  shows "files (snd (io_bind m f w)) = files w"
proof (cases "m w")
  case (Pair r w1)
  with assms(1) assms(2) [of _ w1] show ?thesis
    by (cases r) (simp_all add: io_bind_def)
qed

lemma files_catch:
  assumes "files (snd (m w)) = files w"
    and "\<And>e w1. m w = (Inl e, w1) \<Longrightarrow> files (snd (h e w1)) = files w1"
  shows "files (snd (io_catch m h w)) = files w"
proof (cases "m w")
  case (Pair r w1)
  with assms(1) assms(2) [of _ w1] show ?thesis
    by (cases r) (simp_all add: io_catch_def)
qed

lemma files_return: "files (snd (io_return x w)) = files w"
  by (simp add: io_return_def)

lemma files_raise: "files (snd (io_raise e w)) = files w"
  by (simp add: io_raise_def)

lemma files_request: "files (snd (request env ev answer w)) = files w"
  by (simp add: request_def files_emit)

lemma files_list_configs: "files (snd (list_configs env w)) = files w"
  unfolding list_configs_def
  by (intro files_bind files_run_applescript files_return)

lemma files_get_status: "files (snd (get_status env w)) = files w"
proof -
  let ?m = "run_applescript env (tell_tunnelblick ''get state of configurations'')"
  obtain r w1 where r: "?m w = (r, w1)" by (cases "?m w")
  have a: "files w1 = files w"
    using files_run_applescript [of env "tell_tunnelblick ''get state of configurations''" w] r by simp
  have b: "files (snd (io_bind (list_configs env) (\<lambda>configs. io_return (g configs)) w1)) = files w1"
    for g :: "string list \<Rightarrow> TunnelblickStatus"
    by (intro files_bind files_list_configs files_return)
  show ?thesis
    using r a b by (auto simp: get_status_def Let_def split: sum.splits exn.splits)
qed

section \<open>GUI scripting bridge\<close>

text \<open>
  Claim C10. When the GUI accepts the connect command (the script returns without error),
  \<open>connect\<close> with \<open>wait = False\<close> returns \<open>True\<close> in the world reached by that one script:
  no status query and no sleep follow, whatever the GUI does afterwards.
\<close>

theorem connect_without_wait:
  assumes "run_applescript env (tell_tunnelblick (''connect '' @ dq @ config_name @ dq)) w = (Inr out, w1)"
  shows "connect env config_name False timeout w = (Inr True, w1) \<and>
         new_events w w1 =
           [Subprocess [''osascript'', ''-e'', tell_tunnelblick (''connect '' @ dq @ config_name @ dq)]]"
proof -
  have "w1 = emit env (Subprocess [''osascript'', ''-e'',
            tell_tunnelblick (''connect '' @ dq @ config_name @ dq)]) w"
    using run_applescript_world [of env "tell_tunnelblick (''connect '' @ dq @ config_name @ dq)" w] assms
    by simp
  then have "new_events w w1 =
      [Subprocess [''osascript'', ''-e'', tell_tunnelblick (''connect '' @ dq @ config_name @ dq)]]"
    by (simp add: new_events_def emit_def)
  moreover have "connect env config_name False timeout w = (Inr True, w1)"
    using assms by (simp add: connect_def io_bind_def io_return_def)
  ultimately show ?thesis by simp
qed

theorem connect_without_wait_witness:
  "fst (connect (demo_gui ''DISCONNECTED'' ''us5090.nordvpn.com.udp'') ''us5090.nordvpn.com.udp''
          False 30 empty_world) = Inr True \<and>
   fst (get_status (demo_gui ''DISCONNECTED'' ''us5090.nordvpn.com.udp'')
          (snd (connect (demo_gui ''DISCONNECTED'' ''us5090.nordvpn.com.udp'')
                  ''us5090.nordvpn.com.udp'' False 30 empty_world))) =
     Inr \<lparr>tb_state = DISCONNECTED, tb_config_name = None, tb_server_ip = None\<rparr>"
proof -
  let ?env = "demo_gui ''DISCONNECTED'' ''us5090.nordvpn.com.udp''"
  let ?script = "tell_tunnelblick (''connect '' @ dq @ ''us5090.nordvpn.com.udp'' @ dq)"
  let ?w1 = "emit ?env (Subprocess [''osascript'', ''-e'', ?script]) empty_world"
  have run: "run_applescript ?env ?script empty_world = (Inr [], ?w1)"
    by (simp add: gui_eval demo_eval str_eval)
  from connect_without_wait [OF run, of 30]
  have c: "connect ?env ''us5090.nordvpn.com.udp'' False 30 empty_world = (Inr True, ?w1)"
    by simp
  have "fst (get_status ?env ?w1) =
      Inr \<lparr>tb_state = DISCONNECTED, tb_config_name = None, tb_server_ip = None\<rparr>"
    by (simp add: gui_eval demo_eval str_eval)
  with c show ?thesis by simp
qed

section \<open>Status reconciler\<close>

text \<open>
  Claim C6. When the GUI snapshot is not \<open>CONNECTED\<close>, \<open>get_connection_status\<close> returns
  \<open>connected = False\<close> with every optional field absent, in the world reached by the status
  query alone: the only effects are scripting-bridge calls, no HTTP request (public IP,
  geolocation, catalog) is issued.
\<close>

theorem get_connection_status_not_connected:
  assumes "get_status env w = (Inr tb, w1)" and "tb_state tb \<noteq> CONNECTED"
  shows "get_connection_status env w =
           (Inr \<lparr>cs_connected = False, cs_config_name = None, cs_server_hostname = None,
                 cs_public_ip = None, cs_country = None, cs_city = None, cs_load = None\<rparr>, w1) \<and>
         list_all is_script (new_events w w1) \<and>
         list_all (\<lambda>ev. \<not> is_http_get ev) (new_events w w1)"
proof -
  have run: "get_connection_status env w = (Inr disconnected_status, w1)"
    using assms by (simp add: get_connection_status_def io_bind_def io_return_def)
  have "issues is_script w w1"
    using issues_get_status [of w env] assms(1) by simp
  then have scripts: "list_all is_script (new_events w w1)"
    by (simp add: issues_def)
  have "is_script ev \<Longrightarrow> \<not> is_http_get ev" for ev
    by (cases ev) simp_all
  with scripts have "list_all (\<lambda>ev. \<not> is_http_get ev) (new_events w w1)"
    by (auto simp: list_all_iff)
  with run scripts show ?thesis by (simp add: disconnected_status_def)
qed

theorem get_connection_status_not_connected_witness:
  "fst (get_status (demo_net ''EXITING, CONNECTING'' ''us1.nordvpn.com.udp, de123.nordvpn.com.udp'')
          empty_world) =
     Inr \<lparr>tb_state = CONNECTING, tb_config_name = Some ''de123.nordvpn.com.udp'', tb_server_ip = None\<rparr> \<and>
   fst (get_connection_status
          (demo_net ''EXITING, CONNECTING'' ''us1.nordvpn.com.udp, de123.nordvpn.com.udp'') empty_world) =
     Inr \<lparr>cs_connected = False, cs_config_name = None, cs_server_hostname = None,
          cs_public_ip = None, cs_country = None, cs_city = None, cs_load = None\<rparr> \<and>
   trace (snd (get_connection_status
          (demo_net ''EXITING, CONNECTING'' ''us1.nordvpn.com.udp, de123.nordvpn.com.udp'') empty_world)) =
     [Subprocess [''osascript'', ''-e'', tell_tunnelblick ''get state of configurations''],
      Subprocess [''osascript'', ''-e'', tell_tunnelblick ''get name of configurations'']]"
proof -
  let ?env = "demo_net ''EXITING, CONNECTING'' ''us1.nordvpn.com.udp, de123.nordvpn.com.udp''"
  let ?tb = "\<lparr>tb_state = CONNECTING, tb_config_name = Some ''de123.nordvpn.com.udp'', tb_server_ip = None\<rparr>"
  let ?w1 = "emit ?env (Subprocess [''osascript'', ''-e'', tell_tunnelblick ''get name of configurations''])
               (emit ?env (Subprocess [''osascript'', ''-e'', tell_tunnelblick ''get state of configurations''])
                  empty_world)"
  have st: "get_status ?env empty_world = (Inr ?tb, ?w1)"
    by (simp add: gui_eval demo_net_def demo_eval str_eval)
  have nc: "tb_state ?tb \<noteq> CONNECTED" by simp
  from get_connection_status_not_connected [OF st nc]
  have "get_connection_status ?env empty_world =
          (Inr \<lparr>cs_connected = False, cs_config_name = None, cs_server_hostname = None,
                cs_public_ip = None, cs_country = None, cs_city = None, cs_load = None\<rparr>, ?w1)"
    by simp
  moreover have "trace ?w1 =
     [Subprocess [''osascript'', ''-e'', tell_tunnelblick ''get state of configurations''],
      Subprocess [''osascript'', ''-e'', tell_tunnelblick ''get name of configurations'']]"
    by (simp add: emit_def empty_world_def)
  ultimately show ?thesis using st by simp
qed








section \<open>The polling loop of connect\<close>

declare poll_status.simps [simp del]

lemma poll_status_timeout:
  "\<not> in_time start timeout w \<Longrightarrow> poll_status env start timeout w = (Inr False, w)"
  by (subst poll_status.simps) (simp add: in_time_def)

lemma poll_status_connected:
  "in_time start timeout w \<Longrightarrow> observes env w CONNECTED \<Longrightarrow>
     poll_status env start timeout w = (Inr True, snd (get_status env w))"
  by (subst poll_status.simps)
     (auto simp: in_time_def observes_def split: prod.splits sum.splits)

lemma poll_status_disconnected:
  "in_time start timeout w \<Longrightarrow> observes env w DISCONNECTED \<Longrightarrow>
     poll_status env start timeout w = (Inr False, snd (get_status env w))"
  by (subst poll_status.simps)
     (auto simp: in_time_def observes_def split: prod.splits sum.splits)

lemma poll_status_pending:
  "poll_pending env start timeout w \<Longrightarrow>
     poll_status env start timeout w =
     poll_status env start timeout (sleep env 1 (snd (get_status env w)))"
  by (subst poll_status.simps)
     (auto simp: in_time_def poll_pending_def split: prod.splits sum.splits)

lemma poll_world_shift:
  "poll_world env w0 (Suc n) = poll_world env (sleep env 1 (snd (get_status env w0))) n"
  by (induction n) simp_all

lemma poll_status_skip:
  "\<forall>k < n. poll_pending env start timeout (poll_world env w0 k) \<Longrightarrow>
     poll_status env start timeout w0 = poll_status env start timeout (poll_world env w0 n)"
proof (induction n arbitrary: w0)
  case 0
  show ?case by simp
next
  case (Suc n)
  let ?w = "sleep env 1 (snd (get_status env w0))"
  from Suc.prems have "poll_pending env start timeout (poll_world env w0 0)" by blast
  then have first: "poll_status env start timeout w0 = poll_status env start timeout ?w"
    by (simp add: poll_status_pending)
  have "\<forall>k < n. poll_pending env start timeout (poll_world env ?w k)"
  proof (intro allI impI)
    fix k assume "k < n"
    then have "Suc k < Suc n" by simp
    with Suc.prems have "poll_pending env start timeout (poll_world env w0 (Suc k))"
      by blast
    then show "poll_pending env start timeout (poll_world env ?w k)"
      by (simp only: poll_world_shift)
  qed
  from Suc.IH [OF this] have "poll_status env start timeout ?w =
      poll_status env start timeout (poll_world env ?w n)" .
  with first show ?case by (simp only: poll_world_shift)
qed

lemma poll_status_True:
  "poll_status env start timeout w = (Inr True, w') \<Longrightarrow>
     \<exists>n. (\<forall>k < n. poll_pending env start timeout (poll_world env w k)) \<and>
         in_time start timeout (poll_world env w n) \<and>
         observes env (poll_world env w n) CONNECTED \<and>
         w' = snd (get_status env (poll_world env w n))"
proof (induction env start timeout w rule: poll_status.induct)
  case (1 env start timeout w)
  show ?case
  proof (cases "in_time start timeout w")
    case False
    with "1.prems" show ?thesis by (simp add: poll_status_timeout)
  next
    case True
    obtain r w1 where r: "get_status env w = (r, w1)" by (cases "get_status env w")
    show ?thesis
    proof (cases r)
      case (Inl e)
      with r True "1.prems" show ?thesis
        by (subst (asm) poll_status.simps) (simp add: in_time_def)
    next
      case (Inr status)
      consider "tb_state status = CONNECTED" | "tb_state status = DISCONNECTED"
        | "tb_state status \<noteq> CONNECTED" "tb_state status \<noteq> DISCONNECTED" by blast
      then show ?thesis
      proof cases
        case 1
        with r Inr have obs: "observes env w CONNECTED" by (simp add: observes_def)
        with True "1.prems" have "w' = snd (get_status env w)"
          by (simp add: poll_status_connected)
        with True obs show ?thesis by (intro exI [of _ 0]) simp
      next
        case 2
        with r Inr have "observes env w DISCONNECTED" by (simp add: observes_def)
        with True "1.prems" show ?thesis by (simp add: poll_status_disconnected)
      next
        case 3
        with r Inr True have pend: "poll_pending env start timeout w"
          by (simp add: poll_pending_def)
        with "1.prems" r have rec: "poll_status env start timeout (sleep env 1 w1) = (Inr True, w')"
          by (simp add: poll_status_pending)
        from True have live: "int (clock w) - int start < timeout * 1000" by (simp add: in_time_def)
        from "1.IH" [OF live r [symmetric] Inr _ _ rec] 3
        obtain n where n: "\<forall>k < n. poll_pending env start timeout (poll_world env (sleep env 1 w1) k)"
          "in_time start timeout (poll_world env (sleep env 1 w1) n)"
          "observes env (poll_world env (sleep env 1 w1) n) CONNECTED"
          "w' = snd (get_status env (poll_world env (sleep env 1 w1) n))"
          by blast
        have shift: "poll_world env (sleep env 1 w1) k = poll_world env w (Suc k)" for k
          using poll_world_shift [of env w k] r by simp
        have "\<forall>k < Suc n. poll_pending env start timeout (poll_world env w k)"
        proof (intro allI impI)
          fix k assume k: "k < Suc n"
          show "poll_pending env start timeout (poll_world env w k)"
          proof (cases k)
            case 0
            with pend show ?thesis by simp
          next
            case (Suc j)
            with k have "j < n" by simp
            with n(1) have "poll_pending env start timeout (poll_world env (sleep env 1 w1) j)"
              by blast
            with Suc show ?thesis by (simp only: shift)
          qed
        qed
        with n(2,3,4) show ?thesis
          by (intro exI [of _ "Suc n"]) (simp only: shift simp_thms)
      qed
    qed
  qed
qed

lemma poll_world_clock: "clock (poll_world env w0 n) + 1000 \<le> clock (poll_world env w0 (Suc n))"
  using clock_get_status [of "poll_world env w0 n" env] by (simp add: sleep_def)

lemma poll_world_clock_n: "clock w0 + 1000 * n \<le> clock (poll_world env w0 n)"
proof (induction n)
  case 0
  show ?case by simp
next
  case (Suc n)
  with poll_world_clock [of env w0 n] show ?case by simp
qed

lemma in_time_bound: "in_time (clock w0) timeout (poll_world env w0 n) \<Longrightarrow> int n < timeout"
  using poll_world_clock_n [of w0 n env] by (simp add: in_time_def)

text \<open>
  Claim C4. Let the GUI have accepted the connect command, \<open>w0\<close> being the world after it.
  With \<open>wait = True\<close>, \<open>connect\<close> polls \<open>get_status\<close> with one \<open>sleep(1)\<close> between two polls,
  so consecutive polls start at least a second apart, and only while less than \<open>timeout\<close>
  seconds have passed (hence fewer than \<open>timeout\<close> polls). It returns \<open>True\<close> only if a poll
  that started in time observed \<open>CONNECTED\<close>, and does so at the first poll that observes
  it; it returns \<open>False\<close> right after the first poll that observes \<open>DISCONNECTED\<close>; and it
  returns \<open>False\<close> at the first loop test after \<open>timeout\<close> seconds have elapsed.
\<close>

theorem connect_wait_outcomes:
  assumes "run_applescript env (tell_tunnelblick (''connect '' @ dq @ config_name @ dq)) w = (Inr out, w0)"
  shows
    "(\<forall>w'. connect env config_name True timeout w = (Inr True, w') \<longrightarrow>
        (\<exists>n. (\<forall>k < n. poll_pending env (clock w0) timeout (poll_world env w0 k)) \<and>
             in_time (clock w0) timeout (poll_world env w0 n) \<and>
             observes env (poll_world env w0 n) CONNECTED \<and>
             w' = snd (get_status env (poll_world env w0 n)))) \<and>
     (\<forall>n. (\<forall>k < n. poll_pending env (clock w0) timeout (poll_world env w0 k)) \<and>
          in_time (clock w0) timeout (poll_world env w0 n) \<and>
          observes env (poll_world env w0 n) CONNECTED \<longrightarrow>
          connect env config_name True timeout w =
            (Inr True, snd (get_status env (poll_world env w0 n)))) \<and>
     (\<forall>n. (\<forall>k < n. poll_pending env (clock w0) timeout (poll_world env w0 k)) \<and>
          in_time (clock w0) timeout (poll_world env w0 n) \<and>
          observes env (poll_world env w0 n) DISCONNECTED \<longrightarrow>
          connect env config_name True timeout w =
            (Inr False, snd (get_status env (poll_world env w0 n)))) \<and>
     (\<forall>n. (\<forall>k < n. poll_pending env (clock w0) timeout (poll_world env w0 k)) \<and>
          \<not> in_time (clock w0) timeout (poll_world env w0 n) \<longrightarrow>
          connect env config_name True timeout w = (Inr False, poll_world env w0 n)) \<and>
     (\<forall>n. clock (poll_world env w0 n) + 1000 \<le> clock (poll_world env w0 (Suc n))) \<and>
     (\<forall>n. in_time (clock w0) timeout (poll_world env w0 n) \<longrightarrow> int n < timeout)"
proof -
  have run: "connect env config_name True timeout w = poll_status env (clock w0) timeout w0"
    using assms by (simp add: connect_def io_bind_def)
  have skip: "poll_status env (clock w0) timeout w0 =
      poll_status env (clock w0) timeout (poll_world env w0 n)"
    if "\<forall>k < n. poll_pending env (clock w0) timeout (poll_world env w0 k)" for n
    using that by (rule poll_status_skip)
  have success: "\<forall>w'. connect env config_name True timeout w = (Inr True, w') \<longrightarrow>
        (\<exists>n. (\<forall>k < n. poll_pending env (clock w0) timeout (poll_world env w0 k)) \<and>
             in_time (clock w0) timeout (poll_world env w0 n) \<and>
             observes env (poll_world env w0 n) CONNECTED \<and>
             w' = snd (get_status env (poll_world env w0 n)))"
    unfolding run using poll_status_True by blast
  have connected: "\<forall>n. (\<forall>k < n. poll_pending env (clock w0) timeout (poll_world env w0 k)) \<and>
          in_time (clock w0) timeout (poll_world env w0 n) \<and>
          observes env (poll_world env w0 n) CONNECTED \<longrightarrow>
          connect env config_name True timeout w =
            (Inr True, snd (get_status env (poll_world env w0 n)))"
    unfolding run using skip poll_status_connected by metis
  have disconnected: "\<forall>n. (\<forall>k < n. poll_pending env (clock w0) timeout (poll_world env w0 k)) \<and>
          in_time (clock w0) timeout (poll_world env w0 n) \<and>
          observes env (poll_world env w0 n) DISCONNECTED \<longrightarrow>
          connect env config_name True timeout w =
            (Inr False, snd (get_status env (poll_world env w0 n)))"
    unfolding run using skip poll_status_disconnected by metis
  have timed_out: "\<forall>n. (\<forall>k < n. poll_pending env (clock w0) timeout (poll_world env w0 k)) \<and>
          \<not> in_time (clock w0) timeout (poll_world env w0 n) \<longrightarrow>
          connect env config_name True timeout w = (Inr False, poll_world env w0 n)"
    unfolding run using skip poll_status_timeout by metis
  have apart: "\<forall>n. clock (poll_world env w0 n) + 1000 \<le> clock (poll_world env w0 (Suc n))"
    using poll_world_clock by blast
  have bound: "\<forall>n. in_time (clock w0) timeout (poll_world env w0 n) \<longrightarrow> int n < timeout"
    using in_time_bound by blast
  from success connected disconnected timed_out apart bound show ?thesis
    by (intro conjI)
qed

lemmas timed_eval = run_applescript_def list_configs_def get_status_def tell_tunnelblick_def dq_def
  timed_gui_def request_def emit_def sleep_def io_bind_def io_return_def Let_def
  in_time_def observes_def poll_pending_def

theorem connect_wait_outcomes_witness:
  "fst (connect connects_late ''us5090.nordvpn.com.udp'' True 30 empty_world) = Inr True \<and>
   fst (connect drops_out ''us5090.nordvpn.com.udp'' True 30 empty_world) = Inr False \<and>
   fst (connect never_connects ''us5090.nordvpn.com.udp'' True 2 empty_world) = Inr False \<and>
   clock (snd (connect never_connects ''us5090.nordvpn.com.udp'' True 2 empty_world)) = 2000"
proof -
  let ?script = "tell_tunnelblick (''connect '' @ dq @ ''us5090.nordvpn.com.udp'' @ dq)"
  let ?w0 = "\<lambda>env. emit env (Subprocess [''osascript'', ''-e'', ?script]) empty_world"
  have two: "(\<forall>k < Suc (Suc 0). P k) \<longleftrightarrow> P 0 \<and> P (Suc 0)" for P
    by (auto simp: less_Suc_eq)
  have one: "(\<forall>k < Suc 0. P k) \<longleftrightarrow> P 0" for P
    by simp
  have a0: "run_applescript connects_late ?script empty_world = (Inr [], ?w0 connects_late)"
    by (simp add: timed_eval connects_late_def demo_eval str_eval)
  have a1: "clock (?w0 connects_late) = 0"
    by (simp add: timed_eval connects_late_def demo_eval)
  have a2: "(\<forall>k < Suc (Suc 0). poll_pending connects_late 0 30 (poll_world connects_late (?w0 connects_late) k)) \<and>
        in_time 0 30 (poll_world connects_late (?w0 connects_late) (Suc (Suc 0))) \<and>
        observes connects_late (poll_world connects_late (?w0 connects_late) (Suc (Suc 0))) CONNECTED"
    unfolding two by (simp add: timed_eval connects_late_def demo_eval str_eval)
  from connect_wait_outcomes [OF a0, of 30] a2
  have a: "fst (connect connects_late ''us5090.nordvpn.com.udp'' True 30 empty_world) = Inr True"
    unfolding a1 by (metis fst_conv)
  have b0: "run_applescript drops_out ?script empty_world = (Inr [], ?w0 drops_out)"
    by (simp add: timed_eval drops_out_def demo_eval str_eval)
  have b1: "clock (?w0 drops_out) = 0"
    by (simp add: timed_eval drops_out_def demo_eval)
  have b2: "(\<forall>k < Suc 0. poll_pending drops_out 0 30 (poll_world drops_out (?w0 drops_out) k)) \<and>
        in_time 0 30 (poll_world drops_out (?w0 drops_out) (Suc 0)) \<and>
        observes drops_out (poll_world drops_out (?w0 drops_out) (Suc 0)) DISCONNECTED"
    unfolding one by (simp add: timed_eval drops_out_def demo_eval str_eval)
  from connect_wait_outcomes [OF b0, of 30] b2
  have b: "fst (connect drops_out ''us5090.nordvpn.com.udp'' True 30 empty_world) = Inr False"
    unfolding b1 by (metis fst_conv)
  have c0: "run_applescript never_connects ?script empty_world = (Inr [], ?w0 never_connects)"
    by (simp add: timed_eval never_connects_def demo_eval str_eval)
  have c1: "clock (?w0 never_connects) = 0"
    by (simp add: timed_eval never_connects_def demo_eval)
  have c2: "(\<forall>k < Suc (Suc 0). poll_pending never_connects 0 2 (poll_world never_connects (?w0 never_connects) k)) \<and>
        \<not> in_time 0 2 (poll_world never_connects (?w0 never_connects) (Suc (Suc 0)))"
    unfolding two by (simp add: timed_eval never_connects_def demo_eval str_eval)
  have c3: "clock (poll_world never_connects (?w0 never_connects) (Suc (Suc 0))) = 2000"
    by (simp add: timed_eval never_connects_def demo_eval str_eval)
  from connect_wait_outcomes [OF c0, of 2] c2
  have "connect never_connects ''us5090.nordvpn.com.udp'' True 2 empty_world =
      (Inr False, poll_world never_connects (?w0 never_connects) (Suc (Suc 0)))"
    unfolding c1 by blast
  with c3 have c: "fst (connect never_connects ''us5090.nordvpn.com.udp'' True 2 empty_world) = Inr False"
    "clock (snd (connect never_connects ''us5090.nordvpn.com.udp'' True 2 empty_world)) = 2000"
    by simp_all
  from a b c show ?thesis by simp
qed

section \<open>File-system calls\<close>

lemma fs_call_result:
  assumes "fs_call env ev step w = (r, w')"
  shows "trace w' = trace w @ [ev] \<and>
         (case r of
            Inl e \<Rightarrow> files w' = files w
          | Inr u \<Rightarrow> step (files w) = Inr (files w'))"
  using assms
  by (auto simp: fs_call_def emit_def Let_def split: option.splits sum.splits)

lemma lookup_File: "lookup fs p = Some (File c m) \<longleftrightarrow> p \<noteq> [] \<and> p \<noteq> [''/''] \<and> fs p = Some (File c m)"
  by (simp add: lookup_def)

lemma lookup_upd_other: "q \<noteq> p \<Longrightarrow> lookup (fs(q \<mapsto> n)) p = lookup fs p"
  by (simp add: lookup_def)

lemma put_file_result:
  "put_file fs p content mode cm = Inr fs' \<Longrightarrow> \<exists>m. lookup fs' p = Some (File content m) \<and> fs' = fs(p \<mapsto> File content m)"
  by (auto simp: put_file_def lookup_def split: option.splits node.splits if_splits)

lemma write_text_result:
  assumes "write_text env p content w = (Inr u, w')"
  shows "\<exists>m. lookup (files w') p = Some (File content m)"
  using fs_call_result [OF assms [unfolded write_text_def]] put_file_result by fastforce

lemma chmod_result:
  assumes "chmod env p mode w = (Inr u, w')" and "lookup (files w) p = Some (File content m)"
  shows "lookup (files w') p = Some (File content mode)"
proof -
  from fs_call_result [OF assms(1) [unfolded chmod_def]] assms(2)
  have "files w' = (files w)(p \<mapsto> File content mode)"
    by simp
  with assms(2) show ?thesis by (simp add: lookup_def split: if_splits)
qed

lemma touch_keeps:
  assumes "touch env q w = (r, w')" and "lookup (files w) p = Some (File content m)"
  shows "lookup (files w') p = Some (File content m)"
proof (cases r)
  case (Inl e)
  with fs_call_result [OF assms(1) [unfolded touch_def]] assms(2) show ?thesis by simp
next
  case (Inr u)
  with fs_call_result [OF assms(1) [unfolded touch_def]]
  have step: "(case lookup (files w) q of
         Some n \<Rightarrow> Inr (files w)
       | None \<Rightarrow>
           (case parent_error (files w) q of
              Some e \<Rightarrow> Inl e
            | None \<Rightarrow> Inr ((files w)(q \<mapsto> File [] (file_create_mode env))))) = Inr (files w')"
    by simp
  show ?thesis
  proof (cases "q = p")
    case True
    with step assms(2) show ?thesis by simp
  next
    case False
    with step assms(2) show ?thesis
      by (auto split: option.splits) (metis lookup_upd_other)
  qed
qed

section \<open>Config tblk builder\<close>

lemma create_tblk_package_pass_file:
  assumes "create_tblk_package env config_dir ovpn_path username password w = (Inr tblk_path, w')"
  shows "lookup (files w') (pass_file_of config_dir ovpn_path) =
           Some (File (username @ nl @ password @ nl) mode_0600)"
proof -
  let ?tblk = "path_div config_dir (path_stem ovpn_path @ ''.tblk'')"
  let ?pass = "pass_file_of config_dir ovpn_path"
  let ?content = "username @ nl @ password @ nl"
  from assms obtain w3 w4 w5 where
    wr: "write_text env ?pass ?content w3 = (Inr (), w4)"
    and ch: "chmod env ?pass mode_0600 w4 = (Inr (), w5)"
    and to: "touch env (path_div ?tblk ''autoLogin'') w5 = (Inr (), w')"
    by (auto simp: create_tblk_package_def pass_file_of_def Let_def io_bind_def io_return_def
             split: prod.splits sum.splits if_splits)
  from write_text_result [OF wr] obtain m where "lookup (files w4) ?pass = Some (File ?content m)"
    by blast
  from chmod_result [OF ch this] have "lookup (files w5) ?pass = Some (File ?content mode_0600)" .
  from touch_keeps [OF to this] show ?thesis .
qed

lemma issues_fs_call: "P ev \<Longrightarrow> issues P w (snd (fs_call env ev step w))"
proof -
  assume "P ev"
  obtain r w' where r: "fs_call env ev step w = (r, w')" by (cases "fs_call env ev step w")
  from fs_call_result [OF r] have "trace w' = trace w @ [ev]" by simp
  with \<open>P ev\<close> r show ?thesis by (simp add: issuesI [of _ _ "[ev]"])
qed

lemma issues_download_config:
  "issues (\<lambda>ev. \<not> is_open ev) w (snd (download_config env config_dir hostname w))"
  unfolding download_config_def Let_def write_bytes_def
  by (intro issues_bind issues_request issues_fs_call issues_return) simp_all

lemma issues_create_tblk_package:
  "issues (\<lambda>ev. \<not> is_open ev) w
     (snd (create_tblk_package env config_dir ovpn_path username password w))"
proof -
  have first: "issues (\<lambda>ev. \<not> is_open ev) w
      (snd (if path_exists w p then rmtree env p w else io_return () w))" for p
    by (simp add: rmtree_def issues_fs_call issues_return)
  show ?thesis
    unfolding create_tblk_package_def Let_def mkdir_def copy2_def write_text_def chmod_def touch_def
    by (intro issues_bind first issues_fs_call issues_return) simp_all
qed

lemma download_config_path:
  "download_config env config_dir hostname w = (Inr ovpn_path, w1) \<Longrightarrow>
     ovpn_path = path_div config_dir (normalize_hostname hostname @ ''.udp.ovpn'')"
  by (auto simp: download_config_def Let_def io_bind_def io_return_def
           split: prod.splits sum.splits)

text \<open>
  Claim C8. After \<open>create_tblk_package\<close> has completed, the \<open>.pass\<close> file of the package
  holds exactly \<open>username\<close>, a newline, \<open>password\<close>, a newline, and its mode is \<open>0o600\<close>.
  In \<open>setup_server\<close> the package is handed to the GUI by the \<open>open\<close> subprocess, which is the
  last effect: it is issued in a world in which the \<open>.pass\<close> file already has that content
  and mode, and no \<open>open\<close> precedes it.
\<close>

theorem pass_file_mode_0600:
  "(create_tblk_package env config_dir ovpn_path username password w = (Inr tblk_path, w') \<longrightarrow>
      files w' (pass_file_of config_dir ovpn_path) =
        Some (File (username @ nl @ password @ nl) mode_0600)) \<and>
   (setup_server env config_dir hostname username password w = (Inr config_name, w'') \<longrightarrow>
      (\<exists>w1 tblk.
         w'' = emit env (Subprocess [''open'', path_str tblk]) w1 \<and>
         files w1 (pass_file_of config_dir
                     (path_div config_dir (normalize_hostname hostname @ ''.udp.ovpn''))) =
           Some (File (username @ nl @ password @ nl) mode_0600) \<and>
         list_all (\<lambda>ev. \<not> is_open ev) (new_events w w1)))"
proof (intro conjI impI)
  assume "create_tblk_package env config_dir ovpn_path username password w = (Inr tblk_path, w')"
  from create_tblk_package_pass_file [OF this]
  show "files w' (pass_file_of config_dir ovpn_path) =
      Some (File (username @ nl @ password @ nl) mode_0600)"
    by (simp add: lookup_File)
next
  let ?ovpn = "path_div config_dir (normalize_hostname hostname @ ''.udp.ovpn'')"
  assume "setup_server env config_dir hostname username password w = (Inr config_name, w'')"
  then obtain ovpn wa tblk w1 b where
    dl: "download_config env config_dir hostname w = (Inr ovpn, wa)"
    and cr: "create_tblk_package env config_dir ovpn username password wa = (Inr tblk, w1)"
    and ins: "install_config env tblk w1 = (Inr b, w'')"
    by (auto simp: setup_server_def io_bind_def io_return_def split: prod.splits sum.splits)
  from dl have ovpn: "ovpn = ?ovpn" by (rule download_config_path)
  from ins have last: "w'' = emit env (Subprocess [''open'', path_str tblk]) w1"
    by (simp add: install_config_def request_def Let_def)
  from create_tblk_package_pass_file [OF cr]
  have pass: "files w1 (pass_file_of config_dir ?ovpn) =
      Some (File (username @ nl @ password @ nl) mode_0600)"
    by (simp add: lookup_File ovpn)
  have "issues (\<lambda>ev. \<not> is_open ev) w wa"
    using issues_download_config [of w env config_dir hostname] dl by simp
  moreover have "issues (\<lambda>ev. \<not> is_open ev) wa w1"
    using issues_create_tblk_package [of wa env config_dir ovpn username password] cr by simp
  ultimately have "issues (\<lambda>ev. \<not> is_open ev) w w1" by (rule issues_trans)
  then have "list_all (\<lambda>ev. \<not> is_open ev) (new_events w w1)" by (simp add: issues_def)
  with last pass show "\<exists>w1 tblk.
         w'' = emit env (Subprocess [''open'', path_str tblk]) w1 \<and>
         files w1 (pass_file_of config_dir ?ovpn) =
           Some (File (username @ nl @ password @ nl) mode_0600) \<and>
         list_all (\<lambda>ev. \<not> is_open ev) (new_events w w1)"
    by blast
qed

lemmas fs_eval = write_bytes_def write_text_def mkdir_def copy2_def chmod_def touch_def rmtree_def
  fs_call_def put_file_def parent_error_def lookup_def path_exists_def path_div_def parts_def
  path_stem_def path_name_def rfind_def path_str_def nl_def mode_0600_def pass_file_of_def

lemmas builder_eval = setup_server_def download_config_def create_tblk_package_def
  install_config_def normalize_hostname_def hostname_to_config_name_def OVPN_CONFIG_URL_def
  cdn_env_def staging_world_def quiet_env_def request_def emit_def io_bind_def io_return_def Let_def

theorem pass_file_mode_0600_witness:
  "fst (setup_server cdn_env [''configs''] ''us5090'' ''user'' ''secret'' staging_world) =
     Inr ''us5090.nordvpn.com.udp'' \<and>
   files (snd (setup_server cdn_env [''configs''] ''us5090'' ''user'' ''secret'' staging_world))
     [''configs'', ''us5090.nordvpn.com.udp.tblk'', ''us5090.nordvpn.com.udp.pass''] =
     Some (File (''user'' @ nl @ ''secret'' @ nl) mode_0600)"
proof -
  let ?run = "setup_server cdn_env [''configs''] ''us5090'' ''user'' ''secret'' staging_world"
  have r: "fst ?run = Inr ''us5090.nordvpn.com.udp''"
    by (simp add: builder_eval fs_eval str_eval)
  then obtain w'' where run: "?run = (Inr ''us5090.nordvpn.com.udp'', w'')"
    by (cases ?run) simp
  have p: "pass_file_of [''configs'']
             (path_div [''configs''] (normalize_hostname ''us5090'' @ ''.udp.ovpn'')) =
           [''configs'', ''us5090.nordvpn.com.udp.tblk'', ''us5090.nordvpn.com.udp.pass'']"
    by (simp add: normalize_hostname_def fs_eval str_eval)
  from pass_file_mode_0600 [THEN conjunct2, rule_format, OF run]
  obtain w1 tblk where "w'' = emit cdn_env (Subprocess [''open'', path_str tblk]) w1"
    and "files w1 [''configs'', ''us5090.nordvpn.com.udp.tblk'', ''us5090.nordvpn.com.udp.pass''] =
           Some (File (''user'' @ nl @ ''secret'' @ nl) mode_0600)"
    unfolding p by blast
  then have "files w'' [''configs'', ''us5090.nordvpn.com.udp.tblk'', ''us5090.nordvpn.com.udp.pass''] =
           Some (File (''user'' @ nl @ ''secret'' @ nl) mode_0600)"
    by (simp add: emit_def)
  with r run show ?thesis by simp
qed












lemma set_path_stem: "set (path_stem p) \<subseteq> set (path_name p)"
  by (auto simp: path_stem_def Let_def split: option.splits dest: in_set_takeD)



end
